theory Spec2Isabelle
  imports Main
begin

section \<open>Strings\<close>

text \<open>
  The component is \<^verbatim>\<open>ChatInterface\<close> (src/unnamed/part_000, the two-provider version).
  JavaScript strings are modelled as \<^typ>\<open>string\<close>; a character is one of the 256 code
  points below U+0100, so the white space that \<^verbatim>\<open>String.prototype.trim\<close> strips is
  here TAB, LF, VT, FF, CR, SPACE and NBSP (the white space beyond U+00FF has no
  counterpart in this character type).
\<close>

definition isWhiteSpace :: "char \<Rightarrow> bool" where
  "isWhiteSpace c \<longleftrightarrow>
     c \<in> set [CHR 0x09, CHR 0x0A, CHR 0x0B, CHR 0x0C, CHR 0x0D, CHR 0x20, CHR 0xA0]"

definition trim :: "string \<Rightarrow> string" where
  \<comment> \<open>\<^verbatim>\<open>s.trim()\<close>: white space removed from both ends\<close>
  "trim s = rev (dropWhile isWhiteSpace (rev (dropWhile isWhiteSpace s)))"

definition digit :: "nat \<Rightarrow> char" where
  "digit d = ''0123456789'' ! d"

fun decimal :: "nat \<Rightarrow> string" where
  \<comment> \<open>\<^verbatim>\<open>n.toString()\<close> and \<^verbatim>\<open>`${n}`\<close> for a non-negative integer below 10^21\<close>
  "decimal n = (if n < 10 then [digit n] else decimal (n div 10) @ [digit (n mod 10)])"

declare decimal.simps [simp del]

section \<open>JSON values\<close>

text \<open>
  What \<^verbatim>\<open>response.json()\<close> resolves to, and what \<^verbatim>\<open>JSON.stringify\<close> is given.
  A number is represented by its rendering \<^verbatim>\<open>String(n)\<close> (\<^verbatim>\<open>1000\<close>, \<^verbatim>\<open>0.7\<close>), which
  fixes everything this component does with a number: whether it is falsy (only zero is,
  rendered \<^verbatim>\<open>0\<close>) and how it is interpolated into a template literal. An object is
  the list of its own properties, the first entry for a key being the property.
  The value \<^verbatim>\<open>undefined\<close> is \<^term>\<open>None\<close> of \<^typ>\<open>'a option\<close>.
\<close>

datatype json =
    JNull
  | JBool bool
  | JNum string
  | JStr string
  | JArr "json list"
  | JObj "(string \<times> json) list"

type_synonym jsvalue = "json option"

datatype exn = Error string
  \<comment> \<open>a thrown \<^verbatim>\<open>Error\<close> object (\<^verbatim>\<open>TypeError\<close>, \<^verbatim>\<open>SyntaxError\<close> included), with its \<^verbatim>\<open>message\<close>\<close>

fun message :: "exn \<Rightarrow> string" where
  "message (Error m) = m"

text \<open>
  The texts of the errors the JavaScript engine raises itself are implementation-defined,
  so they are parameters: the \<^verbatim>\<open>TypeError\<close> for reading a property (given by name) of
  \<^verbatim>\<open>undefined\<close> or \<^verbatim>\<open>null\<close>, and the one for an object that cannot be converted to a
  primitive value.
\<close>

record runtime =
  cannotRead :: "jsvalue \<Rightarrow> string \<Rightarrow> string"
  cannotConvert :: string

definition nullish :: "jsvalue \<Rightarrow> bool" where
  "nullish v \<longleftrightarrow> v = None \<or> v = Some JNull"

fun truthy :: "jsvalue \<Rightarrow> bool" where
  "truthy None = False"
| "truthy (Some JNull) = False"
| "truthy (Some (JBool b)) = b"
| "truthy (Some (JNum r)) = (r \<noteq> ''0'')"
| "truthy (Some (JStr s)) = (s \<noteq> [])"
| "truthy (Some (JArr xs)) = True"
| "truthy (Some (JObj kvs)) = True"

fun getProp :: "runtime \<Rightarrow> jsvalue \<Rightarrow> string \<Rightarrow> exn + jsvalue" where
  \<comment> \<open>\<^verbatim>\<open>v.k\<close> for the property names this component reads (\<^verbatim>\<open>error\<close>, \<^verbatim>\<open>code\<close>,
      \<^verbatim>\<open>message\<close>, \<^verbatim>\<open>choices\<close>, \<^verbatim>\<open>content\<close>, \<^verbatim>\<open>candidates\<close>, \<^verbatim>\<open>parts\<close>, \<^verbatim>\<open>text\<close>):
      none of them is a property of a string, number, boolean or array, or inherited by
      an object\<close>
  "getProp rt None k = Inl (Error (cannotRead rt None k))"
| "getProp rt (Some JNull) k = Inl (Error (cannotRead rt (Some JNull) k))"
| "getProp rt (Some (JObj kvs)) k = Inr (map_of kvs k)"
| "getProp rt (Some v) k = Inr None"

definition optProp :: "runtime \<Rightarrow> jsvalue \<Rightarrow> string \<Rightarrow> exn + jsvalue" where
  \<comment> \<open>\<^verbatim>\<open>v?.k\<close>\<close>
  "optProp rt v k = (if nullish v then Inr None else getProp rt v k)"

fun index0 :: "runtime \<Rightarrow> jsvalue \<Rightarrow> exn + jsvalue" where
  \<comment> \<open>\<^verbatim>\<open>v[0]\<close>\<close>
  "index0 rt None = Inl (Error (cannotRead rt None ''0''))"
| "index0 rt (Some JNull) = Inl (Error (cannotRead rt (Some JNull) ''0''))"
| "index0 rt (Some (JArr xs)) = Inr (case xs of [] \<Rightarrow> None | x # _ \<Rightarrow> Some x)"
| "index0 rt (Some (JStr s)) = Inr (case s of [] \<Rightarrow> None | c # _ \<Rightarrow> Some (JStr [c]))"
| "index0 rt (Some (JObj kvs)) = Inr (map_of kvs ''0'')"
| "index0 rt (Some v) = Inr None"

definition intercalate :: "string \<Rightarrow> string list \<Rightarrow> string" where
  "intercalate sep xs = concat (case xs of [] \<Rightarrow> [] | y # ys \<Rightarrow> y # map (\<lambda>z. sep @ z) ys)"

fun toString :: "runtime \<Rightarrow> json \<Rightarrow> exn + string"
  and toStrings :: "runtime \<Rightarrow> json list \<Rightarrow> exn + string list" where
  \<comment> \<open>\<^verbatim>\<open>`${v}`\<close>. An array is joined with commas, \<^verbatim>\<open>null\<close> elements giving the empty
      string; an object is \<^verbatim>\<open>[object Object]\<close> unless its own \<^verbatim>\<open>toString\<close> property
      (never a function in parsed JSON) hides the inherited method\<close>
  "toString rt JNull = Inr ''null''"
| "toString rt (JBool b) = Inr (if b then ''true'' else ''false'')"
| "toString rt (JNum r) = Inr r"
| "toString rt (JStr s) = Inr s"
| "toString rt (JArr xs) =
     (case toStrings rt xs of Inl e \<Rightarrow> Inl e | Inr ss \<Rightarrow> Inr (intercalate '','' ss))"
| "toString rt (JObj kvs) =
     (if map_of kvs ''toString'' = None then Inr ''[object Object]''
      else Inl (Error (cannotConvert rt)))"
| "toStrings rt [] = Inr []"
| "toStrings rt (x # xs) =
     (case (if x = JNull then Inr [] else toString rt x) of
        Inl e \<Rightarrow> Inl e
      | Inr s \<Rightarrow> (case toStrings rt xs of Inl e \<Rightarrow> Inl e | Inr ss \<Rightarrow> Inr (s # ss)))"

definition orElse :: "jsvalue \<Rightarrow> json \<Rightarrow> json" where
  \<comment> \<open>\<^verbatim>\<open>v || d\<close> for a defined \<^verbatim>\<open>d\<close>\<close>
  "orElse v d = (case v of None \<Rightarrow> d | Some x \<Rightarrow> if truthy v then x else d)"

definition bindE :: "exn + 'a \<Rightarrow> ('a \<Rightarrow> exn + 'b) \<Rightarrow> exn + 'b" where
  \<comment> \<open>evaluate, and go on with the value unless an exception was thrown\<close>
  "bindE m f = (case m of Inl e \<Rightarrow> Inl e | Inr x \<Rightarrow> f x)"

fun raised :: "exn + string \<Rightarrow> exn" where
  \<comment> \<open>\<^verbatim>\<open>throw new Error(m)\<close>, where evaluating \<^verbatim>\<open>m\<close> may throw first\<close>
  "raised (Inl e) = e"
| "raised (Inr m) = Error m"

section \<open>Data model\<close>

datatype role = user | assistant

text \<open>
  \<^verbatim>\<open>interface Message\<close>. The identifier is \<^verbatim>\<open>Date.now().toString()\<close>, the timestamp
  \<^verbatim>\<open>new Date()\<close> in milliseconds. The content is declared a string; the reply taken
  from a provider's response is typed \<^verbatim>\<open>any\<close>, so at run time the field holds whatever
  truthy JSON value the provider put there, and the model keeps it as a JSON value.
\<close>

record Message =
  id_msg :: string
  content :: json
  role :: role
  timestamp :: nat

datatype AIProvider = openai | gemini

fun providerId :: "AIProvider \<Rightarrow> string" where
  "providerId openai = ''openai''"
| "providerId gemini = ''gemini''"

record ProviderConfig =
  name :: string
  apiUrl :: string
  defaultModel :: string
  keyPrefix :: string

fun providers :: "AIProvider \<Rightarrow> ProviderConfig" where
  "providers openai = \<lparr>name = ''OpenAI'',
     apiUrl = ''https://api.openai.com/v1/chat/completions'',
     defaultModel = ''gpt-3.5-turbo'', keyPrefix = ''sk-''\<rparr>"
| "providers gemini = \<lparr>name = ''Google Gemini'',
     apiUrl = ''https://generativelanguage.googleapis.com/v1beta/models/gemini-1.5-flash-latest:generateContent'',
     defaultModel = ''gemini-1.5-flash-latest'', keyPrefix = ''AI''\<rparr>"

text \<open>The component's \<^verbatim>\<open>useState\<close> cells.\<close>

record state =
  messages :: "Message list"
  input :: string
  isLoading :: bool
  apiKey :: string
  tempApiKey :: string
  showApiKeySetup :: bool
  provider :: AIProvider

definition initial :: state where
  "initial = \<lparr>messages = [], input = [], isLoading = False, apiKey = [], tempApiKey = [],
     showApiKeySetup = False, provider = openai\<rparr>"

text \<open>\<^verbatim>\<open>localStorage\<close>: \<^verbatim>\<open>getItem\<close> is application, \<^verbatim>\<open>null\<close> is \<^term>\<open>None\<close>.\<close>

type_synonym storage = "string \<rightharpoonup> string"

text \<open>One reading of the clock for each message: \<^verbatim>\<open>Date.now()\<close> and \<^verbatim>\<open>new Date()\<close>.\<close>

record clock =
  dateNow :: nat
  newDate :: nat

section \<open>Credential handlers\<close>

fun parseProvider :: "string \<Rightarrow> AIProvider option" where
  \<comment> \<open>\<^verbatim>\<open>providers[savedProvider]\<close> for the values this component stores under
      \<^verbatim>\<open>ai-provider\<close>: the two provider identifiers\<close>
  "parseProvider s =
     (if s = ''openai'' then Some openai else if s = ''gemini'' then Some gemini else None)"

definition orOpenai :: "string option \<Rightarrow> string" where
  \<comment> \<open>\<^verbatim>\<open>savedProvider || 'openai'\<close>\<close>
  "orOpenai sp = (case sp of None \<Rightarrow> ''openai'' | Some p \<Rightarrow> if p = [] then ''openai'' else p)"

definition mount :: "storage \<Rightarrow> state" where
  \<comment> \<open>the first \<^verbatim>\<open>useEffect\<close>, run once on the initial state\<close>
  "mount ls =
     (let savedProvider = ls ''ai-provider'';
          s1 = (case savedProvider of
                  None \<Rightarrow> initial
                | Some p \<Rightarrow> (case parseProvider p of
                              None \<Rightarrow> initial
                            | Some q \<Rightarrow> initial\<lparr>provider := q\<rparr>))
      in case ls (orOpenai savedProvider @ ''-api-key'') of
           None \<Rightarrow> s1\<lparr>showApiKeySetup := True\<rparr>
         | Some savedApiKey \<Rightarrow>
             if savedApiKey \<noteq> [] then s1\<lparr>apiKey := savedApiKey\<rparr>
             else s1\<lparr>showApiKeySetup := True\<rparr>)"

definition handleApiKeySubmit :: "storage \<times> state \<Rightarrow> storage \<times> state" where
  "handleApiKeySubmit w =
     (case w of (ls, s) \<Rightarrow>
        if trim (tempApiKey s) = [] then (ls, s)
        else (ls(providerId (provider s) @ ''-api-key'' \<mapsto> tempApiKey s,
                 ''ai-provider'' \<mapsto> providerId (provider s)),
              s\<lparr>apiKey := tempApiKey s, showApiKeySetup := False, tempApiKey := []\<rparr>))"

definition handleChangeApiKey :: "state \<Rightarrow> state" where
  "handleChangeApiKey s = s\<lparr>showApiKeySetup := True, tempApiKey := apiKey s\<rparr>"

definition handleProviderChange :: "AIProvider \<Rightarrow> storage \<Rightarrow> state \<Rightarrow> state" where
  "handleProviderChange newProvider ls s =
     (case ls (providerId newProvider @ ''-api-key'') of
        None \<Rightarrow> s\<lparr>provider := newProvider, apiKey := [], tempApiKey := []\<rparr>
      | Some savedApiKey \<Rightarrow>
          if savedApiKey \<noteq> []
          then s\<lparr>provider := newProvider, apiKey := savedApiKey, tempApiKey := savedApiKey\<rparr>
          else s\<lparr>provider := newProvider, apiKey := [], tempApiKey := []\<rparr>)"

section \<open>The conversation and the submission\<close>

definition addMessage :: "clock \<Rightarrow> json \<Rightarrow> role \<Rightarrow> state \<Rightarrow> state" where
  "addMessage t c r s =
     s\<lparr>messages := messages s @
          [\<lparr>id_msg = decimal (dateNow t), content = c, role = r, timestamp = newDate t\<rparr>]\<rparr>"

text \<open>The arguments of \<^verbatim>\<open>fetch\<close>; the body is the value given to \<^verbatim>\<open>JSON.stringify\<close>.\<close>

record request =
  url :: string
  httpMethod :: string
  headers :: "(string \<times> string) list"
  body :: json

fun roleName :: "role \<Rightarrow> json" where
  "roleName user = JStr ''user''"
| "roleName assistant = JStr ''assistant''"

fun buildRequest :: "AIProvider \<Rightarrow> string \<Rightarrow> Message list \<Rightarrow> string \<Rightarrow> request" where
  "buildRequest openai key history userMessage =
     \<lparr>url = apiUrl (providers openai),
      httpMethod = ''POST'',
      headers = [(''Content-Type'', ''application/json''),
                 (''Authorization'', ''Bearer '' @ key)],
      body = JObj [
        (''model'', JStr (defaultModel (providers openai))),
        (''messages'', JArr (
           map (\<lambda>msg. JObj [(''role'', roleName (role msg)), (''content'', content msg)]) history
           @ [JObj [(''role'', JStr ''user''), (''content'', JStr userMessage)]])),
        (''max_tokens'', JNum ''1000''),
        (''temperature'', JNum ''0.7'')]\<rparr>"
| "buildRequest gemini key history userMessage =
     \<lparr>url = apiUrl (providers gemini) @ ''?key='' @ key,
      httpMethod = ''POST'',
      headers = [(''Content-Type'', ''application/json'')],
      body = JObj [
        (''contents'', JArr [JObj [(''parts'', JArr [JObj [(''text'', JStr userMessage)]])]]),
        (''generationConfig'', JObj [
           (''temperature'', JNum ''0.7''),
           (''maxOutputTokens'', JNum ''1000'')])]\<rparr>"

text \<open>
  \<^verbatim>\<open>handleSubmit\<close> is asynchronous, with one suspension point, \<^verbatim>\<open>await fetch(...)\<close>.
  \<open>handleSubmit_begin\<close> is the part that runs when the form is submitted, up to the
  call of \<^verbatim>\<open>fetch\<close>: it returns the new state and the request issued, if any.
\<close>

definition handleSubmit_begin :: "clock \<Rightarrow> state \<Rightarrow> state \<times> request option" where
  \<comment> \<open>\<^verbatim>\<open>e.preventDefault()\<close> does not touch the state; the request is built from the
      \<^verbatim>\<open>messages\<close> the handler closed over, those before the user message is appended\<close>
  "handleSubmit_begin t s =
     (if trim (input s) = [] \<or> isLoading s \<or> apiKey s = [] then (s, None)
      else
        let userMessage = trim (input s);
            s1 = s\<lparr>input := []\<rparr>;
            s2 = addMessage t (JStr userMessage) user s1;
            s3 = s2\<lparr>isLoading := True\<rparr>
        in (s3, Some (buildRequest (provider s) (apiKey s) (messages s) userMessage)))"

text \<open>
  What \<^verbatim>\<open>await fetch(...)\<close> gives: a response, with its status and what
  \<^verbatim>\<open>response.json()\<close> does (it rejects with an error of the given message, or resolves
  to the parsed body), or a rejection with an error of the given message.
\<close>

record response =
  status :: nat
  json_body :: "string + json"

datatype fetch_result = Resolved response | Rejected string

definition ok :: "response \<Rightarrow> bool" where
  \<comment> \<open>\<^verbatim>\<open>response.ok\<close>\<close>
  "ok r \<longleftrightarrow> 200 \<le> status r \<and> status r \<le> 299"

definition quotaMessage :: string where
  "quotaMessage = ''Your OpenAI account has exceeded its quota. Please check your billing details at platform.openai.com''"

definition rateLimitMessage :: string where
  "rateLimitMessage = ''Rate limit exceeded. Please wait a moment and try again.''"

definition fallbackText :: string where
  "fallbackText = ''Sorry, I could not generate a response.''"

definition apiError :: "runtime \<Rightarrow> string \<Rightarrow> nat \<Rightarrow> json \<Rightarrow> exn + string" where
  \<comment> \<open>\<^verbatim>\<open>`... API Error: ${response.status} - ${errorData.error?.message || 'Unknown error'}`\<close>\<close>
  "apiError rt label st errorData =
     bindE (getProp rt (Some errorData) ''error'') (\<lambda>err.
     bindE (optProp rt err ''message'') (\<lambda>m.
     bindE (toString rt (orElse m (JStr ''Unknown error''))) (\<lambda>txt.
     Inr (label @ '' API Error: '' @ decimal st @ '' - '' @ txt))))"

definition insufficientQuota :: "runtime \<Rightarrow> nat \<Rightarrow> json \<Rightarrow> exn + bool" where
  \<comment> \<open>\<^verbatim>\<open>response.status === 429 && errorData.error?.code === 'insufficient_quota'\<close>\<close>
  "insufficientQuota rt st errorData =
     (if st = 429 then
        bindE (getProp rt (Some errorData) ''error'') (\<lambda>err.
        bindE (optProp rt err ''code'') (\<lambda>code.
        Inr (code = Some (JStr ''insufficient_quota''))))
      else Inr False)"

fun failure :: "runtime \<Rightarrow> AIProvider \<Rightarrow> nat \<Rightarrow> json \<Rightarrow> exn" where
  \<comment> \<open>the exception that leaves the block \<^verbatim>\<open>if (!response.ok) { ... }\<close>\<close>
  "failure rt openai st errorData =
     (case insufficientQuota rt st errorData of
        Inl e \<Rightarrow> e
      | Inr q \<Rightarrow>
          if q then Error quotaMessage
          else if st = 401 then Error ''Invalid OpenAI API key. Please check your API key.''
          else if st = 429 then Error rateLimitMessage
          else raised (apiError rt ''OpenAI'' st errorData))"
| "failure rt gemini st errorData =
     (if st = 401 \<or> st = 403 then Error ''Invalid Gemini API key. Please check your API key.''
      else if st = 429 then Error rateLimitMessage
      else raised (apiError rt ''Gemini'' st errorData))"

fun replyText :: "runtime \<Rightarrow> AIProvider \<Rightarrow> json \<Rightarrow> exn + json" where
  \<comment> \<open>\<^verbatim>\<open>data.choices[0]?.message?.content || '...'\<close> and
      \<^verbatim>\<open>data.candidates[0]?.content?.parts[0]?.text || '...'\<close>; in the second, a nullish
      \<^verbatim>\<open>content\<close> skips \<^verbatim>\<open>.parts[0]\<close> as a whole\<close>
  "replyText rt openai data =
     bindE (getProp rt (Some data) ''choices'') (\<lambda>choices.
     bindE (index0 rt choices) (\<lambda>choice.
     bindE (optProp rt choice ''message'') (\<lambda>msg.
     bindE (optProp rt msg ''content'') (\<lambda>c.
     Inr (orElse c (JStr fallbackText))))))"
| "replyText rt gemini data =
     bindE (getProp rt (Some data) ''candidates'') (\<lambda>candidates.
     bindE (index0 rt candidates) (\<lambda>candidate.
     bindE (optProp rt candidate ''content'') (\<lambda>cont.
     bindE (if nullish cont then Inr None
            else bindE (getProp rt cont ''parts'') (index0 rt)) (\<lambda>part.
     bindE (optProp rt part ''text'') (\<lambda>txt.
     Inr (orElse txt (JStr fallbackText)))))))"

definition handleSubmit_try :: "runtime \<Rightarrow> AIProvider \<Rightarrow> fetch_result \<Rightarrow> exn + json" where
  \<comment> \<open>the \<^verbatim>\<open>try\<close> block from the point where \<^verbatim>\<open>fetch\<close> settles: the value of
      \<^verbatim>\<open>assistantMessage\<close>, or the exception thrown\<close>
  "handleSubmit_try rt p res =
     (case res of
        Rejected m \<Rightarrow> Inl (Error m)
      | Resolved r \<Rightarrow>
          if \<not> ok r then
            Inl (failure rt p (status r) (case json_body r of Inl m \<Rightarrow> JObj [] | Inr v \<Rightarrow> v))
          else
            (case json_body r of
               Inl m \<Rightarrow> Inl (Error m)
             | Inr data \<Rightarrow> replyText rt p data))"

definition handleSubmit_resume ::
  "runtime \<Rightarrow> clock \<Rightarrow> AIProvider \<Rightarrow> fetch_result \<Rightarrow> state \<Rightarrow> state" where
  \<comment> \<open>the rest of \<^verbatim>\<open>handleSubmit\<close> once \<^verbatim>\<open>fetch\<close> has settled, with \<^verbatim>\<open>catch\<close> and
      \<^verbatim>\<open>finally\<close>; \<^verbatim>\<open>p\<close> is the \<^verbatim>\<open>provider\<close> the handler closed over, the state is the
      current one (the updates are functional). \<^verbatim>\<open>console.error\<close> is left out.\<close>
  "handleSubmit_resume rt t p res s =
     (let s1 = (case handleSubmit_try rt p res of
                  Inr assistantMessage \<Rightarrow> addMessage t assistantMessage assistant s
                | Inl error \<Rightarrow> addMessage t (JStr (''Error: '' @ message error)) assistant s)
      in s1\<lparr>isLoading := False\<rparr>)"

definition handleSubmit ::
  "runtime \<Rightarrow> clock \<Rightarrow> clock \<Rightarrow> fetch_result \<Rightarrow> state \<Rightarrow> state" where
  \<comment> \<open>a whole run of \<^verbatim>\<open>handleSubmit\<close> with no other event while the request is in
      flight: \<^verbatim>\<open>t1\<close> is the clock at submission, \<^verbatim>\<open>t2\<close> the clock when \<^verbatim>\<open>fetch\<close>
      has settled with \<^verbatim>\<open>res\<close>\<close>
  "handleSubmit rt t1 t2 res s =
     (case handleSubmit_begin t1 s of
        (s1, None) \<Rightarrow> s1
      | (s1, Some req) \<Rightarrow> handleSubmit_resume rt t2 (provider s) res s1)"

section \<open>The component as a whole\<close>

text \<open>
  The events the rendered component can receive. The set-up screen is rendered when
  \<^verbatim>\<open>showApiKeySetup\<close> holds and the chat screen otherwise, and each control exists only
  on its screen; the chat input is disabled while loading. A request in flight settles
  whatever is on the screen; the event carries the provider its handler closed over
  (any provider and any result are admitted at any time, which covers every run).
  An event that the screen does not offer leaves the state as it is.
\<close>

datatype event =
    InputChange string
  | Submit clock
  | Settle clock AIProvider fetch_result
  | ChangeApiKey
  | TempApiKeyChange string
  | ProviderChange AIProvider
  | ApiKeySubmit

fun step :: "runtime \<Rightarrow> storage \<times> state \<Rightarrow> event \<Rightarrow> storage \<times> state" where
  "step rt (ls, s) (InputChange v) =
     (if showApiKeySetup s \<or> isLoading s then (ls, s) else (ls, s\<lparr>input := v\<rparr>))"
| "step rt (ls, s) (Submit t) =
     (if showApiKeySetup s then (ls, s) else (ls, fst (handleSubmit_begin t s)))"
| "step rt (ls, s) (Settle t p res) = (ls, handleSubmit_resume rt t p res s)"
| "step rt (ls, s) ChangeApiKey =
     (if showApiKeySetup s then (ls, s) else (ls, handleChangeApiKey s))"
| "step rt (ls, s) (TempApiKeyChange v) =
     (if showApiKeySetup s then (ls, s\<lparr>tempApiKey := v\<rparr>) else (ls, s))"
| "step rt (ls, s) (ProviderChange p) =
     (if showApiKeySetup s then (ls, handleProviderChange p ls s) else (ls, s))"
| "step rt (ls, s) ApiKeySubmit =
     (if showApiKeySetup s then handleApiKeySubmit (ls, s) else (ls, s))"

definition run :: "runtime \<Rightarrow> storage \<Rightarrow> event list \<Rightarrow> storage \<times> state" where
  \<comment> \<open>the component mounted on a given \<^verbatim>\<open>localStorage\<close>, then the events in order\<close>
  "run rt ls evs = foldl (step rt) (ls, mount ls) evs"

text \<open>A submission as the user makes it: type the text, submit, and the request settles.\<close>

record submission =
  typed :: string
  clockSubmit :: clock
  clockSettle :: clock
  result :: fetch_result

definition submit :: "runtime \<Rightarrow> state \<Rightarrow> submission \<Rightarrow> state" where
  "submit rt s x =
     handleSubmit rt (clockSubmit x) (clockSettle x) (result x) (s\<lparr>input := typed x\<rparr>)"

definition succeeds :: "submission \<Rightarrow> bool" where
  \<comment> \<open>non-empty text, and the network call returns a success status\<close>
  "succeeds x \<longleftrightarrow>
     trim (typed x) \<noteq> [] \<and> (case result x of Resolved r \<Rightarrow> ok r | Rejected m \<Rightarrow> False)"

section \<open>Notions used by the properties\<close>

definition reply :: "runtime \<Rightarrow> AIProvider \<Rightarrow> fetch_result \<Rightarrow> json" where
  \<comment> \<open>the content that \<^verbatim>\<open>handleSubmit\<close> hands to \<^verbatim>\<open>addMessage\<close> once \<^verbatim>\<open>fetch\<close> has settled\<close>
  "reply rt p res =
     (case handleSubmit_try rt p res of
        Inr assistantMessage \<Rightarrow> assistantMessage
      | Inl error \<Rightarrow> JStr (''Error: '' @ message error))"

definition exchange :: "runtime \<Rightarrow> AIProvider \<Rightarrow> submission \<Rightarrow> Message list" where
  \<comment> \<open>the two transcript entries of a submission\<close>
  "exchange rt p x =
     [\<lparr>id_msg = decimal (dateNow (clockSubmit x)), content = JStr (trim (typed x)),
       role = user, timestamp = newDate (clockSubmit x)\<rparr>,
      \<lparr>id_msg = decimal (dateNow (clockSettle x)), content = reply rt p (result x),
       role = assistant, timestamp = newDate (clockSettle x)\<rparr>]"

definition failed :: "fetch_result \<Rightarrow> bool" where
  \<comment> \<open>the call resolves with an HTTP failure status, or does not complete\<close>
  "failed res = (case res of Rejected m \<Rightarrow> True | Resolved r \<Rightarrow> \<not> ok r)"

fun errorCode :: "json \<Rightarrow> jsvalue" where
  \<comment> \<open>the \<^verbatim>\<open>code\<close> of a failure body \<^verbatim>\<open>{error: {code, message}}\<close>, if it has one\<close>
  "errorCode (JObj kvs) =
     (case map_of kvs ''error'' of Some (JObj ekvs) \<Rightarrow> map_of ekvs ''code'' | _ \<Rightarrow> None)"
| "errorCode v = None"

definition messageObject :: "role \<Rightarrow> json \<Rightarrow> json" where
  \<comment> \<open>a \<^verbatim>\<open>{role, content}\<close> pair of the chat-completion request\<close>
  "messageObject r c = JObj [(''role'', roleName r), (''content'', c)]"

definition credentialInv :: "storage \<times> state \<Rightarrow> bool" where
  \<comment> \<open>a credential is held, or the set-up screen is shown\<close>
  "credentialInv w \<longleftrightarrow> apiKey (snd w) \<noteq> [] \<or> showApiKeySetup (snd w)"

subsection \<open>Example inputs\<close>

definition v8 :: runtime where
  \<comment> \<open>the error texts of V8\<close>
  "v8 = \<lparr>cannotRead = (\<lambda>v k. ''Cannot read properties of ''
            @ (if v = None then ''undefined'' else ''null'')
            @ '' (reading '' @ [CHR 0x27] @ k @ [CHR 0x27] @ '')''),
          cannotConvert = ''Cannot convert object to primitive value''\<rparr>"

definition openaiStored :: storage where
  "openaiStored = [''openai-api-key'' \<mapsto> ''sk-test'']"

definition geminiStored :: storage where
  "geminiStored = [''ai-provider'' \<mapsto> ''gemini'', ''gemini-api-key'' \<mapsto> ''AIza-test'']"

definition at :: "nat \<Rightarrow> clock" where
  "at ms = \<lparr>dateNow = ms, newDate = ms\<rparr>"

definition success :: "json \<Rightarrow> fetch_result" where
  "success data = Resolved \<lparr>status = 200, json_body = Inr data\<rparr>"

definition hiThere :: json where
  \<comment> \<open>\<^verbatim>\<open>{choices: [{message: {content: "Hi there"}}]}\<close>\<close>
  "hiThere = JObj [(''choices'', JArr [JObj [(''message'', JObj [(''content'', JStr ''Hi there'')])]])]"

definition twoSubmissions :: "submission list" where
  "twoSubmissions =
     [\<lparr>typed = '' Hello '', clockSubmit = at 1000, clockSettle = at 1400, result = success hiThere\<rparr>,
      \<lparr>typed = ''And you?'', clockSubmit = at 9000, clockSettle = at 9300,
       result = success (JObj [(''choices'', JArr [])])\<rparr>]"

definition blankDraft :: state where
  \<comment> \<open>a credential stored, and a draft of a space, a tab and a line feed\<close>
  "blankDraft = (mount openaiStored)\<lparr>input := [CHR 0x20, CHR 0x09, CHR 0x0A]\<rparr>"

definition switchToGemini :: "event list" where
  \<comment> \<open>type a draft, open the set-up screen, select the provider that has no stored key\<close>
  "switchToGemini = [InputChange ''hi'', ChangeApiKey, ProviderChange gemini]"

definition secondTurn :: state where
  "secondTurn = (foldl (submit v8) (mount openaiStored) twoSubmissions)\<lparr>input := ''Thanks''\<rparr>"

definition geminiDraft :: state where
  \<comment> \<open>the generate-content provider active, two exchanges in the transcript, a new draft\<close>
  "geminiDraft = (mount geminiStored)\<lparr>messages := concat (map (exchange v8 gemini) twoSubmissions),
     input := ''Hola?''\<rparr>"

definition inFlight :: state where
  \<comment> \<open>the state once \<^verbatim>\<open>Hello\<close> has been submitted\<close>
  "inFlight = fst (handleSubmit_begin (at 1000) ((mount openaiStored)\<lparr>input := ''Hello''\<rparr>))"

definition quotaBody :: json where
  "quotaBody = JObj [(''error'', JObj [(''code'', JStr ''insufficient_quota''),
     (''message'', JStr ''You exceeded your current quota'')])]"

definition rateBody :: json where
  "rateBody = JObj [(''error'', JObj [(''code'', JStr ''rate_limit_exceeded'')])]"

section \<open>Properties\<close>

lemma trim_empty_iff: "trim s = [] \<longleftrightarrow> (\<forall>c\<in>set s. isWhiteSpace c)"
proof
  assume "trim s = []"
  then have d: "\<forall>c\<in>set (dropWhile isWhiteSpace s). isWhiteSpace c"
    by (simp add: trim_def dropWhile_eq_Nil_conv)
  show "\<forall>c\<in>set s. isWhiteSpace c"
  proof
    fix c assume "c \<in> set s"
    then have "c \<in> set (takeWhile isWhiteSpace s) \<or> c \<in> set (dropWhile isWhiteSpace s)"
      by (metis Un_iff set_append takeWhile_dropWhile_id)
    then show "isWhiteSpace c" using d by (auto dest: set_takeWhileD)
  qed
next
  assume "\<forall>c\<in>set s. isWhiteSpace c"
  then show "trim s = []"
    by (auto simp: trim_def dropWhile_eq_Nil_conv dest: set_dropWhileD)
qed

lemma begin_rejected:
  "trim (input s) = [] \<or> isLoading s \<or> apiKey s = [] \<Longrightarrow> handleSubmit_begin t s = (s, None)"
  by (simp add: handleSubmit_begin_def)

lemma begin_accepted:
  "trim (input s) \<noteq> [] \<Longrightarrow> \<not> isLoading s \<Longrightarrow> apiKey s \<noteq> [] \<Longrightarrow>
   handleSubmit_begin t s =
     (s\<lparr>input := [],
        messages := messages s @ [\<lparr>id_msg = decimal (dateNow t), content = JStr (trim (input s)),
                                  role = user, timestamp = newDate t\<rparr>],
        isLoading := True\<rparr>,
      Some (buildRequest (provider s) (apiKey s) (messages s) (trim (input s))))"
  by (simp add: handleSubmit_begin_def addMessage_def Let_def)

lemma resume_eq:
  "handleSubmit_resume rt t p res s =
     s\<lparr>messages := messages s @ [\<lparr>id_msg = decimal (dateNow t), content = reply rt p res,
                                  role = assistant, timestamp = newDate t\<rparr>],
       isLoading := False\<rparr>"
  by (simp add: handleSubmit_resume_def addMessage_def reply_def Let_def split: sum.splits)

lemma submit_eq:
  assumes "\<not> isLoading s" and "apiKey s \<noteq> []" and "trim (typed x) \<noteq> []"
  shows "submit rt s x =
     s\<lparr>input := [], messages := messages s @ exchange rt (provider s) x, isLoading := False\<rparr>"
  using assms
  by (simp add: submit_def handleSubmit_def begin_accepted resume_eq exchange_def)

lemma submissions_messages:
  assumes "\<not> isLoading s" and "apiKey s \<noteq> []" and "\<forall>x\<in>set xs. trim (typed x) \<noteq> []"
  shows "messages (foldl (submit rt) s xs) = messages s @ concat (map (exchange rt (provider s)) xs)"
  using assms
proof (induction xs arbitrary: s)
  case Nil
  then show ?case by simp
next
  case (Cons x xs)
  let ?s = "submit rt s x"
  have e: "?s = s\<lparr>input := [], messages := messages s @ exchange rt (provider s) x, isLoading := False\<rparr>"
    using Cons.prems by (simp add: submit_eq)
  have "messages (foldl (submit rt) ?s xs) = messages ?s @ concat (map (exchange rt (provider ?s)) xs)"
    using Cons.prems by (intro Cons.IH) (simp_all add: e)
  then show ?case by (simp add: e)
qed

subsection \<open>Successful submissions\<close>

text \<open>
  C1. Starting from a state that is not loading and holds a credential, a sequence of
  successful submissions (each with text that is not blank and a response of success status)
  makes the conversation longer by exactly two messages each, leaves the messages that
  were there as a prefix, in their order, and appends for each submission a user message
  whose content is the submitted text (trimmed, as the handler stores it) followed by an
  assistant message.
\<close>

theorem submissions_append_two:
  assumes "\<not> isLoading s" and "apiKey s \<noteq> []" and "\<forall>x\<in>set xs. succeeds x"
  shows "length (messages (foldl (submit rt) s xs)) = length (messages s) + 2 * length xs
       \<and> take (length (messages s)) (messages (foldl (submit rt) s xs)) = messages s
       \<and> (\<exists>rs. length rs = length xs \<and>
            map (\<lambda>m. (role m, content m))
                (drop (length (messages s)) (messages (foldl (submit rt) s xs)))
              = concat (map2 (\<lambda>x r. [(user, JStr (trim (typed x))), (assistant, r)]) xs rs))"
proof -
  have ne: "\<forall>x\<in>set xs. trim (typed x) \<noteq> []"
    using assms(3) by (simp add: succeeds_def)
  have m: "messages (foldl (submit rt) s xs) = messages s @ concat (map (exchange rt (provider s)) xs)"
    using assms(1,2) ne by (rule submissions_messages)
  have l: "length (concat (map (exchange rt (provider s)) xs)) = 2 * length xs"
    by (induction xs) (simp_all add: exchange_def)
  let ?rs = "map (\<lambda>x. reply rt (provider s) (result x)) xs"
  have c: "map (\<lambda>m. (role m, content m)) (concat (map (exchange rt (provider s)) xs))
         = concat (map2 (\<lambda>x r. [(user, JStr (trim (typed x))), (assistant, r)]) xs ?rs)"
    by (induction xs) (simp_all add: exchange_def)
  show ?thesis
  proof (intro conjI exI [of _ ?rs])
    show "length (messages (foldl (submit rt) s xs)) = length (messages s) + 2 * length xs"
      by (simp add: m l)
    show "take (length (messages s)) (messages (foldl (submit rt) s xs)) = messages s"
      by (simp add: m)
    show "length ?rs = length xs" by simp
    show "map (\<lambda>m. (role m, content m))
              (drop (length (messages s)) (messages (foldl (submit rt) s xs)))
            = concat (map2 (\<lambda>x r. [(user, JStr (trim (typed x))), (assistant, r)]) xs ?rs)"
      by (simp add: m c)
  qed
qed

lemma mount_openaiStored:
  "mount openaiStored = initial\<lparr>apiKey := ''sk-test''\<rparr>"
  by (simp add: mount_def openaiStored_def orOpenai_def)

lemma trim_Hello: "trim '' Hello '' = ''Hello''"
  by (simp add: trim_def isWhiteSpace_def)

lemma trim_And: "trim ''And you?'' = ''And you?''"
  by (simp add: trim_def isWhiteSpace_def)

theorem submissions_append_two_witness:
  "\<not> isLoading (mount openaiStored) \<and> apiKey (mount openaiStored) \<noteq> []
   \<and> list_all succeeds twoSubmissions
   \<and> length (messages (foldl (submit v8) (mount openaiStored) twoSubmissions))
       = length (messages (mount openaiStored)) + 2 * length twoSubmissions
   \<and> take (length (messages (mount openaiStored)))
          (messages (foldl (submit v8) (mount openaiStored) twoSubmissions))
       = messages (mount openaiStored)
   \<and> (\<exists>rs. length rs = length twoSubmissions \<and>
         map (\<lambda>m. (role m, content m))
             (drop (length (messages (mount openaiStored)))
                   (messages (foldl (submit v8) (mount openaiStored) twoSubmissions)))
           = concat (map2 (\<lambda>x r. [(user, JStr (trim (typed x))), (assistant, r)]) twoSubmissions rs))"
proof -
  have h1: "\<not> isLoading (mount openaiStored)"
    by (simp add: mount_openaiStored initial_def)
  have h2: "apiKey (mount openaiStored) \<noteq> []"
    by (simp add: mount_openaiStored initial_def)
  have h3: "\<forall>x\<in>set twoSubmissions. succeeds x"
    by (simp add: twoSubmissions_def succeeds_def success_def ok_def trim_Hello trim_And)
  show ?thesis
    using submissions_append_two [OF h1 h2 h3, of v8] h1 h2 h3
    by (simp only: list_all_iff) blast
qed

text \<open>
  Scenario A of the specification, followed by a reply that has no choice in it.
\<close>

lemma scenario_A:
  "map (\<lambda>m. (role m, content m)) (messages (foldl (submit v8) (mount openaiStored) twoSubmissions))
   = [(user, JStr ''Hello''), (assistant, JStr ''Hi there''),
      (user, JStr ''And you?''), (assistant, JStr fallbackText)]"
  by (simp add: submit_eq mount_openaiStored initial_def twoSubmissions_def
      exchange_def reply_def handleSubmit_try_def success_def ok_def hiThere_def bindE_def
      optProp_def nullish_def orElse_def trim_Hello trim_And)


subsection \<open>Submissions that are ignored\<close>

text \<open>
  C2. When a request is in flight, or the draft is empty or made of white space only,
  submitting changes nothing: the state is the same state (so the conversation and its
  length are the same, and no transition has occurred) and no request is issued; the
  whole handler, whatever the network would answer, returns the state it was given.
\<close>

theorem submit_guard_noop:
  assumes "isLoading s \<or> (\<forall>c\<in>set (input s). isWhiteSpace c)"
  shows "handleSubmit_begin t s = (s, None) \<and> handleSubmit rt t t' res s = s"
proof -
  have "trim (input s) = [] \<or> isLoading s \<or> apiKey s = []"
    using assms by (auto simp: trim_empty_iff)
  then have "handleSubmit_begin t s = (s, None)" by (rule begin_rejected)
  then show ?thesis by (simp add: handleSubmit_def)
qed

theorem submit_guard_noop_witness:
  "(isLoading blankDraft \<or> (\<forall>c\<in>set (input blankDraft). isWhiteSpace c))
   \<and> handleSubmit_begin (at 1000) blankDraft = (blankDraft, None)
   \<and> handleSubmit v8 (at 1000) (at 1400) (success hiThere) blankDraft = blankDraft"
proof -
  have h: "isLoading blankDraft \<or> (\<forall>c\<in>set (input blankDraft). isWhiteSpace c)"
    by (simp add: blankDraft_def isWhiteSpace_def)
  show ?thesis
    using submit_guard_noop [OF h, of "at 1000" v8 "at 1400" "success hiThere"] h by blast
qed

subsection \<open>Submitting without a credential\<close>

lemma credentialInv_mount: "credentialInv (ls, mount ls)"
  by (simp add: credentialInv_def mount_def initial_def Let_def split: option.splits)

lemma trim_Nil: "trim [] = []"
  by (simp add: trim_def)

lemma credentialInv_step: "credentialInv w \<Longrightarrow> credentialInv (step rt w e)"
proof (cases w)
  case (Pair ls s)
  assume "credentialInv w"
  then have i: "apiKey s \<noteq> [] \<or> showApiKeySetup s"
    by (simp add: credentialInv_def Pair)
  show ?thesis
  proof (cases e)
    case (InputChange v)
    then show ?thesis using i by (auto simp: Pair credentialInv_def)
  next
    case (Submit t)
    then show ?thesis using i
      by (auto simp: Pair credentialInv_def handleSubmit_begin_def addMessage_def Let_def)
  next
    case (Settle t p res)
    then show ?thesis using i by (auto simp: Pair credentialInv_def resume_eq)
  next
    case ChangeApiKey
    then show ?thesis using i by (auto simp: Pair credentialInv_def handleChangeApiKey_def)
  next
    case (TempApiKeyChange v)
    then show ?thesis using i by (auto simp: Pair credentialInv_def)
  next
    case (ProviderChange p)
    then show ?thesis using i
      by (auto simp: Pair credentialInv_def handleProviderChange_def split: option.splits)
  next
    case ApiKeySubmit
    then show ?thesis using i
      by (auto simp: Pair credentialInv_def handleApiKeySubmit_def trim_Nil)
  qed
qed

lemma credentialInv_run: "credentialInv (run rt ls evs)"
  unfolding run_def
  by (induction evs rule: rev_induct) (simp_all add: credentialInv_mount credentialInv_step)

text \<open>
  C3. In every state the mounted component can reach, submitting a non-empty draft while
  no credential is held for the active provider ends in the state that awaits a
  credential (the set-up screen is shown), appends no message and issues no request.
  The handler itself returns at its guard and leaves the state as it is; the set-up
  screen is shown because every path that leaves the component without a credential
  shows it (\<open>credentialInv_run\<close>).
\<close>

theorem submit_without_credential:
  assumes "s = snd (run rt ls evs)" and "apiKey s = []" and "trim (input s) \<noteq> []"
  shows "showApiKeySetup (fst (handleSubmit_begin t s))
       \<and> messages (fst (handleSubmit_begin t s)) = messages s
       \<and> snd (handleSubmit_begin t s) = None
       \<and> fst (handleSubmit_begin t s) = s"
proof -
  have "credentialInv (run rt ls evs)" by (rule credentialInv_run)
  then have "showApiKeySetup s"
    using assms(1,2) by (simp add: credentialInv_def)
  moreover have "handleSubmit_begin t s = (s, None)"
    using assms(2) by (simp add: begin_rejected)
  ultimately show ?thesis by simp
qed

lemma openaiStored_gemini: "openaiStored ''gemini-api-key'' = None"
  by (simp add: openaiStored_def)

lemma run_switchToGemini:
  "snd (run v8 openaiStored switchToGemini) =
     \<lparr>messages = [], input = ''hi'', isLoading = False, apiKey = [], tempApiKey = [],
      showApiKeySetup = True, provider = gemini\<rparr>"
  by (simp add: run_def switchToGemini_def mount_openaiStored initial_def handleChangeApiKey_def
      handleProviderChange_def openaiStored_gemini)

theorem submit_without_credential_witness:
  "apiKey (snd (run v8 openaiStored switchToGemini)) = []
   \<and> trim (input (snd (run v8 openaiStored switchToGemini))) \<noteq> []
   \<and> showApiKeySetup (fst (handleSubmit_begin (at 1000) (snd (run v8 openaiStored switchToGemini))))
   \<and> messages (fst (handleSubmit_begin (at 1000) (snd (run v8 openaiStored switchToGemini))))
       = messages (snd (run v8 openaiStored switchToGemini))
   \<and> snd (handleSubmit_begin (at 1000) (snd (run v8 openaiStored switchToGemini))) = None
   \<and> fst (handleSubmit_begin (at 1000) (snd (run v8 openaiStored switchToGemini)))
       = snd (run v8 openaiStored switchToGemini)"
proof -
  have h1: "apiKey (snd (run v8 openaiStored switchToGemini)) = []"
    by (simp add: run_switchToGemini)
  have h2: "trim (input (snd (run v8 openaiStored switchToGemini))) \<noteq> []"
    by (simp add: run_switchToGemini trim_def isWhiteSpace_def)
  show ?thesis
    using submit_without_credential [OF refl h1 h2, of "at 1000"] h1 h2 by blast
qed


subsection \<open>Requests\<close>

text \<open>
  C4. An accepted submission with the chat-completion provider active issues a request
  whose body lists, under \<^verbatim>\<open>messages\<close>, the whole prior conversation as
  \<^verbatim>\<open>{role, content}\<close> pairs in order, followed last by the new user message; it carries
  the fixed \<^verbatim>\<open>max_tokens\<close> 1000 and \<^verbatim>\<open>temperature\<close> 0.7, and the secret is in the
  header \<^verbatim>\<open>Authorization: Bearer <secret>\<close>.
\<close>

theorem openai_request:
  assumes "trim (input s) \<noteq> []" and "\<not> isLoading s" and "apiKey s \<noteq> []"
    and "provider s = openai"
  shows "\<exists>req fields. snd (handleSubmit_begin t s) = Some req
       \<and> body req = JObj fields
       \<and> map_of fields ''messages'' =
           Some (JArr (map (\<lambda>m. messageObject (role m) (content m)) (messages s)
                       @ [messageObject user (JStr (trim (input s)))]))
       \<and> map_of fields ''max_tokens'' = Some (JNum ''1000'')
       \<and> map_of fields ''temperature'' = Some (JNum ''0.7'')
       \<and> map_of (headers req) ''Authorization'' = Some (''Bearer '' @ apiKey s)"
  using assms by (simp add: begin_accepted messageObject_def)

lemma secondTurn_eq:
  "secondTurn = \<lparr>messages = concat (map (exchange v8 openai) twoSubmissions), input = ''Thanks'',
     isLoading = False, apiKey = ''sk-test'', tempApiKey = [], showApiKeySetup = False,
     provider = openai\<rparr>"
  by (simp add: secondTurn_def submit_eq mount_openaiStored initial_def twoSubmissions_def
      trim_Hello trim_And)

lemma trim_Thanks: "trim ''Thanks'' = ''Thanks''"
  by (simp add: trim_def isWhiteSpace_def)

theorem openai_request_witness:
  "trim (input secondTurn) \<noteq> [] \<and> \<not> isLoading secondTurn \<and> apiKey secondTurn \<noteq> []
   \<and> provider secondTurn = openai
   \<and> (\<exists>req fields. snd (handleSubmit_begin (at 20000) secondTurn) = Some req
       \<and> body req = JObj fields
       \<and> map_of fields ''messages'' =
           Some (JArr (map (\<lambda>m. messageObject (role m) (content m)) (messages secondTurn)
                       @ [messageObject user (JStr (trim (input secondTurn)))]))
       \<and> map_of fields ''max_tokens'' = Some (JNum ''1000'')
       \<and> map_of fields ''temperature'' = Some (JNum ''0.7'')
       \<and> map_of (headers req) ''Authorization'' = Some (''Bearer '' @ apiKey secondTurn))"
proof -
  have h1: "trim (input secondTurn) \<noteq> []" by (simp add: secondTurn_eq trim_Thanks)
  have h2: "\<not> isLoading secondTurn" by (simp add: secondTurn_eq)
  have h3: "apiKey secondTurn \<noteq> []" by (simp add: secondTurn_eq)
  have h4: "provider secondTurn = openai" by (simp add: secondTurn_eq)
  show ?thesis
    using openai_request [OF h1 h2 h3 h4, of "at 20000"] h1 h2 h3 h4 by blast
qed

text \<open>
  C5. An accepted submission with the generate-content provider active issues a request
  whose body carries the new user text as its single content part; the request is the
  same whatever the prior conversation is, so none of it is included; the secret is the
  \<^verbatim>\<open>key\<close> parameter of the URL, and the only header is the content type.
\<close>

theorem gemini_request:
  assumes "trim (input s) \<noteq> []" and "\<not> isLoading s" and "apiKey s \<noteq> []"
    and "provider s = gemini"
  shows "\<exists>req fields. snd (handleSubmit_begin t s) = Some req
       \<and> body req = JObj fields
       \<and> map_of fields ''contents'' =
           Some (JArr [JObj [(''parts'', JArr [JObj [(''text'', JStr (trim (input s)))]])]])
       \<and> url req = apiUrl (providers gemini) @ ''?key='' @ apiKey s
       \<and> headers req = [(''Content-Type'', ''application/json'')]
       \<and> (\<forall>history. snd (handleSubmit_begin t (s\<lparr>messages := history\<rparr>)) = Some req)"
  using assms by (simp add: begin_accepted)



lemma mount_geminiStored:
  "mount geminiStored = initial\<lparr>provider := gemini, apiKey := ''AIza-test''\<rparr>"
  by (simp add: mount_def geminiStored_def orOpenai_def)

lemma geminiDraft_eq:
  "geminiDraft = \<lparr>messages = concat (map (exchange v8 gemini) twoSubmissions), input = ''Hola?'',
     isLoading = False, apiKey = ''AIza-test'', tempApiKey = [], showApiKeySetup = False,
     provider = gemini\<rparr>"
  by (simp add: geminiDraft_def mount_geminiStored initial_def)

lemma trim_Hola: "trim ''Hola?'' = ''Hola?''"
  by (simp add: trim_def isWhiteSpace_def)

theorem gemini_request_witness:
  "trim (input geminiDraft) \<noteq> [] \<and> \<not> isLoading geminiDraft \<and> apiKey geminiDraft \<noteq> []
   \<and> provider geminiDraft = gemini
   \<and> (\<exists>req fields. snd (handleSubmit_begin (at 20000) geminiDraft) = Some req
       \<and> body req = JObj fields
       \<and> map_of fields ''contents'' =
           Some (JArr [JObj [(''parts'', JArr [JObj [(''text'', JStr (trim (input geminiDraft)))]])]])
       \<and> url req = apiUrl (providers gemini) @ ''?key='' @ apiKey geminiDraft
       \<and> headers req = [(''Content-Type'', ''application/json'')]
       \<and> (\<forall>history. snd (handleSubmit_begin (at 20000) (geminiDraft\<lparr>messages := history\<rparr>)) = Some req))"
proof -
  have h1: "trim (input geminiDraft) \<noteq> []" by (simp add: geminiDraft_eq trim_Hola)
  have h2: "\<not> isLoading geminiDraft" by (simp add: geminiDraft_eq)
  have h3: "apiKey geminiDraft \<noteq> []" by (simp add: geminiDraft_eq)
  have h4: "provider geminiDraft = gemini" by (simp add: geminiDraft_eq)
  show ?thesis
    using gemini_request [OF h1 h2 h3 h4, of "at 20000"] h1 h2 h3 h4 by blast
qed

subsection \<open>Requests that fail\<close>

lemma try_failed:
  "failed res \<Longrightarrow> \<exists>e. handleSubmit_try rt p res = Inl e"
  by (cases res) (simp_all add: failed_def handleSubmit_try_def)

text \<open>
  C6. When the call resolves with an HTTP failure status, or does not complete, the
  \<^verbatim>\<open>try\<close> block ends in an exception, which the handler catches: the rest of the
  handler returns a state (nothing is raised further), in which one assistant entry has
  been appended whose content is \<^verbatim>\<open>Error: \<close> followed by the message of the exception
  (for a transport failure, the message the failure came with), and the in-flight flag
  is cleared.
\<close>

theorem failure_becomes_assistant_entry:
  assumes "failed res"
  shows "\<exists>e. handleSubmit_try rt p res = Inl e
       \<and> (\<forall>m. res = Rejected m \<longrightarrow> e = Error m)
       \<and> handleSubmit_resume rt t p res s =
           s\<lparr>messages := messages s @
                [\<lparr>id_msg = decimal (dateNow t), content = JStr (''Error: '' @ message e),
                  role = assistant, timestamp = newDate t\<rparr>],
             isLoading := False\<rparr>"
proof -
  obtain e where e: "handleSubmit_try rt p res = Inl e"
    using assms try_failed by blast
  have "\<forall>m. res = Rejected m \<longrightarrow> e = Error m"
    using e by (auto simp: handleSubmit_try_def)
  moreover have "reply rt p res = JStr (''Error: '' @ message e)"
    by (simp add: reply_def e)
  ultimately show ?thesis using e by (simp add: resume_eq)
qed

theorem failure_becomes_assistant_entry_witness:
  "failed (Rejected ''Failed to fetch'')
   \<and> (\<exists>e. handleSubmit_try v8 openai (Rejected ''Failed to fetch'') = Inl e
       \<and> (\<forall>m. Rejected ''Failed to fetch'' = Rejected m \<longrightarrow> e = Error m)
       \<and> handleSubmit_resume v8 (at 1400) openai (Rejected ''Failed to fetch'') inFlight =
           inFlight\<lparr>messages := messages inFlight @
                [\<lparr>id_msg = decimal (dateNow (at 1400)), content = JStr (''Error: '' @ message e),
                  role = assistant, timestamp = newDate (at 1400)\<rparr>],
             isLoading := False\<rparr>)"
proof -
  have h: "failed (Rejected ''Failed to fetch'')" by (simp add: failed_def)
  show ?thesis
    using failure_becomes_assistant_entry [OF h, of v8 openai "at 1400" inFlight] h by blast
qed

lemma insufficientQuota_errorCode:
  "data \<noteq> JNull \<Longrightarrow>
   insufficientQuota rt 429 data = Inr (errorCode data = Some (JStr ''insufficient_quota''))"
proof (cases data)
  case (JObj kvs)
  show ?thesis
  proof (cases "map_of kvs ''error''")
    case None
    then show ?thesis by (simp add: JObj insufficientQuota_def bindE_def optProp_def nullish_def)
  next
    case (Some err)
    then show ?thesis
      by (cases err) (simp_all add: JObj insufficientQuota_def bindE_def optProp_def nullish_def)
  qed
qed (simp_all add: insufficientQuota_def bindE_def optProp_def nullish_def)

lemma last_resume:
  "last (messages (handleSubmit_resume rt t p res s)) =
     \<lparr>id_msg = decimal (dateNow t), content = reply rt p res, role = assistant,
      timestamp = newDate t\<rparr>"
  by (simp add: resume_eq)

lemma reply_failure:
  "\<not> ok r \<Longrightarrow> reply rt p (Resolved r) =
     JStr (''Error: '' @ message (failure rt p (status r)
       (case json_body r of Inl m \<Rightarrow> JObj [] | Inr v \<Rightarrow> v)))"
  by (simp add: reply_def handleSubmit_try_def)

text \<open>
  C7. With the chat-completion provider: a response of status 429 whose body carries the
  error code \<^verbatim>\<open>insufficient_quota\<close> gives the assistant message about quota and
  billing; a response of status 429 without that code (a body that is not JSON, or a
  JSON value other than \<^verbatim>\<open>null\<close> whose error code is not that one) gives the rate-limit
  message, and the two messages differ; a response of status 401 gives the message
  about an invalid API key, whatever its body.
\<close>

theorem openai_failure_messages:
  "(status r1 = 429 \<and> json_body r1 = Inr data \<and> errorCode data = Some (JStr ''insufficient_quota'')
      \<longrightarrow> role (last (messages (handleSubmit_resume rt t openai (Resolved r1) s))) = assistant
        \<and> content (last (messages (handleSubmit_resume rt t openai (Resolved r1) s)))
            = JStr (''Error: '' @ quotaMessage))
   \<and> (status r2 = 429
        \<and> (\<forall>d. json_body r2 = Inr d \<longrightarrow> d \<noteq> JNull \<and> errorCode d \<noteq> Some (JStr ''insufficient_quota''))
      \<longrightarrow> role (last (messages (handleSubmit_resume rt t openai (Resolved r2) s))) = assistant
        \<and> content (last (messages (handleSubmit_resume rt t openai (Resolved r2) s)))
            = JStr (''Error: '' @ rateLimitMessage))
   \<and> (status r3 = 401
      \<longrightarrow> role (last (messages (handleSubmit_resume rt t openai (Resolved r3) s))) = assistant
        \<and> content (last (messages (handleSubmit_resume rt t openai (Resolved r3) s)))
            = JStr ''Error: Invalid OpenAI API key. Please check your API key.'')
   \<and> quotaMessage \<noteq> rateLimitMessage"
proof (intro conjI impI)
  assume a: "status r1 = 429 \<and> json_body r1 = Inr data \<and> errorCode data = Some (JStr ''insufficient_quota'')"
  then have n: "data \<noteq> JNull" by auto
  have "\<not> ok r1" using a by (simp add: ok_def)
  then show "content (last (messages (handleSubmit_resume rt t openai (Resolved r1) s)))
            = JStr (''Error: '' @ quotaMessage)"
    using a by (simp add: last_resume reply_failure insufficientQuota_errorCode [OF n])
next
  assume a: "status r2 = 429
        \<and> (\<forall>d. json_body r2 = Inr d \<longrightarrow> d \<noteq> JNull \<and> errorCode d \<noteq> Some (JStr ''insufficient_quota''))"
  have k: "\<not> ok r2" using a by (simp add: ok_def)
  show "content (last (messages (handleSubmit_resume rt t openai (Resolved r2) s)))
            = JStr (''Error: '' @ rateLimitMessage)"
  proof (cases "json_body r2")
    case (Inl m)
    then show ?thesis using a k
      by (simp add: last_resume reply_failure insufficientQuota_def bindE_def optProp_def nullish_def)
  next
    case (Inr d)
    then have "d \<noteq> JNull" and "errorCode d \<noteq> Some (JStr ''insufficient_quota'')"
      using a by auto
    then show ?thesis using a k Inr
      by (simp add: last_resume reply_failure insufficientQuota_errorCode)
  qed
next
  assume a: "status r3 = 401"
  then have "\<not> ok r3" by (simp add: ok_def)
  then show "content (last (messages (handleSubmit_resume rt t openai (Resolved r3) s)))
            = JStr ''Error: Invalid OpenAI API key. Please check your API key.''"
    using a by (simp add: last_resume reply_failure insufficientQuota_def)
next
  show "quotaMessage \<noteq> rateLimitMessage"
    by (simp add: quotaMessage_def rateLimitMessage_def)
qed (simp_all add: last_resume)

theorem openai_failure_messages_witness:
  "(status \<lparr>status = 429, json_body = Inr quotaBody\<rparr> = 429
      \<and> json_body \<lparr>status = 429, json_body = Inr quotaBody\<rparr> = Inr quotaBody
      \<and> errorCode quotaBody = Some (JStr ''insufficient_quota''))
   \<and> content (last (messages (handleSubmit_resume v8 (at 1400) openai
        (Resolved \<lparr>status = 429, json_body = Inr quotaBody\<rparr>) inFlight)))
       = JStr (''Error: '' @ quotaMessage)
   \<and> (status \<lparr>status = 429, json_body = Inr rateBody\<rparr> = 429
      \<and> json_body \<lparr>status = 429, json_body = Inr rateBody\<rparr> = Inr rateBody
      \<and> rateBody \<noteq> JNull \<and> errorCode rateBody \<noteq> Some (JStr ''insufficient_quota''))
   \<and> content (last (messages (handleSubmit_resume v8 (at 1400) openai
        (Resolved \<lparr>status = 429, json_body = Inr rateBody\<rparr>) inFlight)))
       = JStr (''Error: '' @ rateLimitMessage)
   \<and> status \<lparr>status = 401, json_body = Inl ''Unexpected end of JSON input''\<rparr> = 401
   \<and> content (last (messages (handleSubmit_resume v8 (at 1400) openai
        (Resolved \<lparr>status = 401, json_body = Inl ''Unexpected end of JSON input''\<rparr>) inFlight)))
       = JStr ''Error: Invalid OpenAI API key. Please check your API key.''"
proof -
  have h1: "status \<lparr>status = 429, json_body = Inr quotaBody\<rparr> = 429
      \<and> json_body \<lparr>status = 429, json_body = Inr quotaBody\<rparr> = Inr quotaBody
      \<and> errorCode quotaBody = Some (JStr ''insufficient_quota'')"
    by (simp add: quotaBody_def)
  have h2: "status \<lparr>status = 429, json_body = Inr rateBody\<rparr> = 429
      \<and> (\<forall>d. json_body \<lparr>status = 429, json_body = Inr rateBody\<rparr> = Inr d
            \<longrightarrow> d \<noteq> JNull \<and> errorCode d \<noteq> Some (JStr ''insufficient_quota''))"
    by (simp add: rateBody_def)
  have h3: "status \<lparr>status = 401, json_body = Inl ''Unexpected end of JSON input''\<rparr> = 401"
    by simp
  show ?thesis
    using openai_failure_messages [of "\<lparr>status = 429, json_body = Inr quotaBody\<rparr>" quotaBody
        v8 "at 1400" inFlight "\<lparr>status = 429, json_body = Inr rateBody\<rparr>"
        "\<lparr>status = 401, json_body = Inl ''Unexpected end of JSON input''\<rparr>"] h1 h2 h3
    by simp
qed

subsection \<open>Reply text that is missing\<close>

lemma fallback_where_guarded:
  "replyText rt openai (JObj [(''choices'', JArr [])]) = Inr (JStr fallbackText)"
  "replyText rt openai (JObj [(''choices'', JArr [JObj [(''message'', JObj [])]])])
     = Inr (JStr fallbackText)"
  "replyText rt gemini (JObj [(''candidates'', JArr [JObj []])]) = Inr (JStr fallbackText)"
  by (simp_all add: bindE_def optProp_def nullish_def orElse_def)

text \<open>
  C8. The fallback text is given where the optional chain is guarded
  (\<open>fallback_where_guarded\<close>), but not for every success response without the reply
  field: for the body \<^verbatim>\<open>{}\<close> the expression \<^verbatim>\<open>data.choices[0]\<close> reads index 0 of
  \<^verbatim>\<open>undefined\<close>, and the assistant message is \<^verbatim>\<open>Error: \<close> followed by the text of that
  \<^verbatim>\<open>TypeError\<close>, not the fallback text.
\<close>

theorem missing_choices_is_error:
  "content (last (messages (handleSubmit_resume rt t openai (success (JObj [])) s)))
     = JStr (''Error: '' @ cannotRead rt None ''0'')
   \<and> content (last (messages (handleSubmit_resume rt t openai (success (JObj [])) s)))
     \<noteq> JStr fallbackText"
  by (simp add: last_resume reply_def handleSubmit_try_def success_def ok_def bindE_def
      fallbackText_def)

subsection \<open>Resolution and identifiers\<close>

text \<open>
  C9. Whatever \<^verbatim>\<open>fetch\<close> settles with (a success, an HTTP error status, a transport
  failure) and whatever the state is at that moment, the in-flight flag is false once
  the handler has finished.
\<close>

theorem loading_cleared: "\<not> isLoading (handleSubmit_resume rt t p res s)"
  by (simp add: resume_eq)

lemma decimal_1000: "decimal 1000 = ''1000''"
  by (simp add: decimal.simps digit_def)

text \<open>
  C10. Identifiers are the clock in milliseconds, so they are not always distinct: when
  \<^verbatim>\<open>fetch\<close> settles within the millisecond of the submission, the user message and the
  assistant message of that submission have the same identifier.
\<close>

theorem same_millisecond_same_id:
  "map (\<lambda>m. (id_msg m, role m))
       (messages (handleSubmit rt (at 1000) (at 1000) res ((mount openaiStored)\<lparr>input := ''Hello''\<rparr>)))
     = [(''1000'', user), (''1000'', assistant)]
   \<and> \<not> distinct (map id_msg
       (messages (handleSubmit rt (at 1000) (at 1000) res ((mount openaiStored)\<lparr>input := ''Hello''\<rparr>))))"
  by (simp add: handleSubmit_def begin_accepted resume_eq mount_openaiStored initial_def
      trim_def isWhiteSpace_def at_def decimal_1000)

end
